theory Spec2Isabelle
  imports Main "HOL-Library.Word"
begin

unbundle bit_operations_syntax

section \<open>C types of the SMC module\<close>

text \<open>
  The module is \<^verbatim>\<open>OptaNative/SMC/SMC.c\<close> with its header \<^verbatim>\<open>SMC.h\<close>. Fixed-width C
  integers are words of that width. A C \<^verbatim>\<open>char\<close> is an 8-bit byte, here an Isabelle
  \<^typ>\<open>char\<close>; \<^verbatim>\<open>kern_return_t\<close> is a C \<^verbatim>\<open>int\<close>, the Mach port types
  \<^verbatim>\<open>io_connect_t\<close>, \<^verbatim>\<open>io_service_t\<close> and \<^verbatim>\<open>mach_port_t\<close> are 32-bit.
\<close>

type_synonym uint8_t = "8 word"
type_synonym uint16_t = "16 word"
type_synonym uint32_t = "32 word"
type_synonym kern_return_t = "32 word"
type_synonym mach_port_t = "32 word"
type_synonym io_connect_t = "32 word"
type_synonym io_service_t = "32 word"

subsection \<open>Constants\<close>

text \<open>
  \<^verbatim>\<open>SMC.h\<close> defines the buffer capacity and the command selectors. The status
  codes are IOKit's (\<^verbatim>\<open>IOKit/IOReturn.h\<close>): \<^verbatim>\<open>kIOReturnSuccess\<close> is
  \<^verbatim>\<open>KERN_SUCCESS\<close>, 0, \<^verbatim>\<open>kIOReturnNotFound\<close> is
  \<^verbatim>\<open>iokit_common_err(0x2f0)\<close>, 0xE00002F0, and \<^verbatim>\<open>kIOReturnError\<close>, which only
  the concrete runs below use, is \<^verbatim>\<open>iokit_common_err(0x2bc)\<close>.
\<close>

definition SMC_KEY_DATA_SIZE :: nat where
  "SMC_KEY_DATA_SIZE = 32"

definition SMC_CMD_READ_BYTES :: uint8_t where
  "SMC_CMD_READ_BYTES = 5"

definition SMC_CMD_READ_KEYINFO :: uint8_t where
  "SMC_CMD_READ_KEYINFO = 9"

definition kIOReturnSuccess :: kern_return_t where
  "kIOReturnSuccess = 0"

definition kIOReturnNotFound :: kern_return_t where
  "kIOReturnNotFound = 0xE00002F0"

definition kIOReturnError :: kern_return_t where
  "kIOReturnError = 0xE00002BC"

definition NUL :: char where
  "NUL = CHR 0x00"

subsection \<open>Structures\<close>

text \<open>
  Each \<^verbatim>\<open>typedef struct\<close> of \<^verbatim>\<open>SMC.h\<close> is a record with the fields in the header's
  order. A C array is a list; its declared length is kept by the zero values below
  and by the writes, which never change a length. Padding bytes are not part of the
  model. The field \<^verbatim>\<open>length\<close> of the power-limit structure is \<open>length_\<close> here.
\<close>

record SMCKeyData_vers_t =
  major :: uint8_t
  minor :: uint8_t
  build :: uint8_t
  reserved :: "uint8_t list"
  release :: uint16_t

record SMCKeyData_pLimitData_t =
  version :: uint16_t
  length_ :: uint16_t
  cpuPLimit :: uint32_t
  gpuPLimit :: uint32_t
  memPLimit :: uint32_t

record SMCKeyData_keyInfo_t =
  dataSize :: uint32_t
  dataType :: uint32_t
  dataAttributes :: uint8_t

record SMCKeyData_t =
  key :: uint32_t
  vers :: SMCKeyData_vers_t
  pLimitData :: SMCKeyData_pLimitData_t
  keyInfo :: SMCKeyData_keyInfo_t
  result :: uint8_t
  status :: uint8_t
  data8 :: uint8_t
  data32 :: uint32_t
  bytes :: "uint8_t list"

record SMCVal_t =
  key :: string
  dataSize :: uint32_t
  dataType :: uint32_t
  bytes :: "uint8_t list"

text \<open>
  \<^verbatim>\<open>sizeof(SMCKeyData_t)\<close> under the natural alignment of the target ABIs: 4 + 6 (+2)
  + 16 + 9 (+3) + 3 (+1) + 4 + 32 bytes.
\<close>

definition sizeof_SMCKeyData_t :: nat where
  "sizeof_SMCKeyData_t = 80"

text \<open>What \<^verbatim>\<open>memset(&x, 0, sizeof(x))\<close> leaves in a structure of each type.\<close>

definition zero_SMCKeyData_vers_t :: SMCKeyData_vers_t where
  "zero_SMCKeyData_vers_t =
     \<lparr>major = 0, minor = 0, build = 0, reserved = replicate 1 0, release = 0\<rparr>"

definition zero_SMCKeyData_pLimitData_t :: SMCKeyData_pLimitData_t where
  "zero_SMCKeyData_pLimitData_t =
     \<lparr>version = 0, length_ = 0, cpuPLimit = 0, gpuPLimit = 0, memPLimit = 0\<rparr>"

definition zero_SMCKeyData_keyInfo_t :: SMCKeyData_keyInfo_t where
  "zero_SMCKeyData_keyInfo_t =
     \<lparr>SMCKeyData_keyInfo_t.dataSize = 0, SMCKeyData_keyInfo_t.dataType = 0,
      dataAttributes = 0\<rparr>"

definition zero_SMCKeyData_t :: SMCKeyData_t where
  "zero_SMCKeyData_t =
     \<lparr>SMCKeyData_t.key = 0, vers = zero_SMCKeyData_vers_t,
      pLimitData = zero_SMCKeyData_pLimitData_t, keyInfo = zero_SMCKeyData_keyInfo_t,
      result = 0, status = 0, data8 = 0, data32 = 0,
      SMCKeyData_t.bytes = replicate SMC_KEY_DATA_SIZE 0\<rparr>"

definition zero_SMCVal_t :: SMCVal_t where
  "zero_SMCVal_t =
     \<lparr>SMCVal_t.key = replicate 5 NUL, SMCVal_t.dataSize = 0, SMCVal_t.dataType = 0,
      SMCVal_t.bytes = replicate SMC_KEY_DATA_SIZE 0\<rparr>"

section \<open>Key codec\<close>

text \<open>
  \<^verbatim>\<open>(uint32_t)key[i]\<close> converts a plain \<^verbatim>\<open>char\<close> to \<^verbatim>\<open>uint32_t\<close>. The module
  builds only against IOKit, that is for Apple targets, whose ABI makes plain
  \<^verbatim>\<open>char\<close> a signed type on both x86-64 and arm64. The conversion of a signed value to
  \<^verbatim>\<open>uint32_t\<close> is modulo \<open>2 ^ 32\<close>: the byte is sign-extended.
\<close>

definition uint32_of_char :: "char \<Rightarrow> uint32_t" where
  "uint32_of_char c = scast (of_char c :: 8 word)"

text \<open>
  A \<^verbatim>\<open>const char *key\<close> is modelled by the bytes of the object it points into, from
  the pointer on (terminator included when there is one). \<^verbatim>\<open>SMCKeyToUInt32\<close> reads
  \<^verbatim>\<open>key[0]\<close> to \<^verbatim>\<open>key[3]\<close> whatever they hold; where fewer than four bytes are
  readable the C behaviour is undefined, which is the value \<open>None\<close>.
\<close>

fun SMCKeyToUInt32 :: "string \<Rightarrow> uint32_t option" where
  "SMCKeyToUInt32 (k0 # k1 # k2 # k3 # rest) =
     Some (push_bit 24 (uint32_of_char k0) OR
           push_bit 16 (uint32_of_char k1) OR
           push_bit 8 (uint32_of_char k2) OR
           uint32_of_char k3)"
| "SMCKeyToUInt32 _ = None"

text \<open>
  The reading of a 32-bit value as four bytes, most significant first, that the
  round-trip law of the key codec speaks of. The source has no decoder: this follows
  the law's words.
\<close>

definition uint32_bytes_msb_first :: "uint32_t \<Rightarrow> string" where
  "uint32_bytes_msb_first w =
     [char_of (unat (drop_bit 24 w)), char_of (unat (drop_bit 16 w)),
      char_of (unat (drop_bit 8 w)), char_of (unat w)]"

definition ascii_key :: "string \<Rightarrow> bool" where
  "ascii_key k \<longleftrightarrow> length k = 4 \<and> (\<forall>c \<in> set k. (of_char c :: nat) < 128)"

section \<open>The host: IOKit\<close>

text \<open>
  The module reaches the hardware only through IOKit. The host is a record of the
  IOKit entry points the module calls, each a function of its arguments and of the
  state \<open>'w\<close> of the world outside the process, returning what the call returns,
  what it stores through its out-pointers, and the next state of the world. A
  matching dictionary (\<^verbatim>\<open>CFMutableDictionaryRef\<close>) is a pointer.
  \<^verbatim>\<open>kIOMainPortDefault\<close> and \<^verbatim>\<open>mach_task_self()\<close> are values the host provides.
\<close>

type_synonym CFMutableDictionaryRef = "64 word"

record 'w IOKit =
  kIOMainPortDefault :: mach_port_t
  mach_task_self :: mach_port_t
  IOServiceMatching :: "string \<Rightarrow> 'w \<Rightarrow> CFMutableDictionaryRef \<times> 'w"
  IOServiceGetMatchingService ::
    "mach_port_t \<Rightarrow> CFMutableDictionaryRef \<Rightarrow> 'w \<Rightarrow> io_service_t \<times> 'w"
  IOServiceOpen ::
    "io_service_t \<Rightarrow> mach_port_t \<Rightarrow> uint32_t \<Rightarrow> io_connect_t \<Rightarrow> 'w
       \<Rightarrow> (kern_return_t \<times> io_connect_t) \<times> 'w"
  IOObjectRelease :: "io_service_t \<Rightarrow> 'w \<Rightarrow> kern_return_t \<times> 'w"
  IOServiceClose :: "io_connect_t \<Rightarrow> 'w \<Rightarrow> kern_return_t \<times> 'w"
  IOConnectCallStructMethod ::
    "io_connect_t \<Rightarrow> uint32_t \<Rightarrow> SMCKeyData_t \<Rightarrow> nat \<Rightarrow> SMCKeyData_t \<Rightarrow> nat \<Rightarrow> 'w
       \<Rightarrow> (kern_return_t \<times> SMCKeyData_t \<times> nat) \<times> 'w"

text \<open>
  Every call the module makes is recorded, in order, with the arguments it passed, so
  that what the module did not call can be stated.
\<close>

datatype iokit_call =
    Call_IOServiceMatching string
  | Call_IOServiceGetMatchingService mach_port_t CFMutableDictionaryRef
  | Call_IOServiceOpen io_service_t mach_port_t uint32_t
  | Call_IOObjectRelease io_service_t
  | Call_IOServiceClose io_connect_t
  | Call_IOConnectCallStructMethod io_connect_t uint32_t SMCKeyData_t nat nat

record 'w sys =
  world :: 'w
  calls :: "iokit_call list"

definition invoke :: "iokit_call \<Rightarrow> ('w \<Rightarrow> 'a \<times> 'w) \<Rightarrow> 'w sys \<Rightarrow> 'a \<times> 'w sys" where
  "invoke c f s =
     (case f (world s) of (r, w) \<Rightarrow> (r, \<lparr>world = w, calls = calls s @ [c]\<rparr>))"

definition callStructMethod ::
  "'w IOKit \<Rightarrow> io_connect_t \<Rightarrow> uint32_t \<Rightarrow> SMCKeyData_t \<Rightarrow> nat \<Rightarrow> SMCKeyData_t \<Rightarrow> nat
     \<Rightarrow> 'w sys \<Rightarrow> (kern_return_t \<times> SMCKeyData_t \<times> nat) \<times> 'w sys" where
  "callStructMethod h conn selector inputData inputSize outputData outputSize =
     invoke (Call_IOConnectCallStructMethod conn selector inputData inputSize outputSize)
       (IOConnectCallStructMethod h conn selector inputData inputSize outputData outputSize)"

section \<open>Connection manager\<close>

text \<open>
  \<^verbatim>\<open>SMCOpen(io_connect_t *conn)\<close>: the argument \<open>conn\<close> is what \<^verbatim>\<open>*conn\<close> holds at
  entry, the second component of the result what it holds at return.
\<close>

definition SMCOpen ::
  "'w IOKit \<Rightarrow> io_connect_t \<Rightarrow> 'w sys \<Rightarrow> (kern_return_t \<times> io_connect_t) \<times> 'w sys" where
  "SMCOpen h conn s =
     (case invoke (Call_IOServiceMatching ''AppleSMC'') (IOServiceMatching h ''AppleSMC'') s of
        (matching, s1) \<Rightarrow>
     (case invoke (Call_IOServiceGetMatchingService (kIOMainPortDefault h) matching)
             (IOServiceGetMatchingService h (kIOMainPortDefault h) matching) s1 of
        (service, s2) \<Rightarrow>
     if service = 0 then ((kIOReturnNotFound, conn), s2)
     else
       (case invoke (Call_IOServiceOpen service (mach_task_self h) 0)
               (IOServiceOpen h service (mach_task_self h) 0 conn) s2 of
          ((res, conn'), s3) \<Rightarrow>
       (case invoke (Call_IOObjectRelease service) (IOObjectRelease h service) s3 of
          (_, s4) \<Rightarrow> ((res, conn'), s4)))))"

definition SMCClose :: "'w IOKit \<Rightarrow> io_connect_t \<Rightarrow> 'w sys \<Rightarrow> kern_return_t \<times> 'w sys" where
  "SMCClose h conn s = invoke (Call_IOServiceClose conn) (IOServiceClose h conn) s"

section \<open>Key metadata query\<close>

text \<open>
  \<^verbatim>\<open>SMCGetKeyInfo(conn, key, keyInfo)\<close>: \<open>kinfo\<close> is what \<^verbatim>\<open>*keyInfo\<close> holds at entry,
  the second component of the result what it holds at return.
\<close>

definition SMCGetKeyInfo ::
  "'w IOKit \<Rightarrow> io_connect_t \<Rightarrow> uint32_t \<Rightarrow> SMCKeyData_keyInfo_t \<Rightarrow> 'w sys
     \<Rightarrow> (kern_return_t \<times> SMCKeyData_keyInfo_t) \<times> 'w sys" where
  "SMCGetKeyInfo h conn k kinfo s =
     (let inputSize = sizeof_SMCKeyData_t;
          outputSize = sizeof_SMCKeyData_t;
          inputData = zero_SMCKeyData_t;
          outputData = zero_SMCKeyData_t;
          inputData = inputData\<lparr>SMCKeyData_t.key := k\<rparr>;
          inputData = inputData\<lparr>data8 := SMC_CMD_READ_KEYINFO\<rparr>
      in case callStructMethod h conn 2 inputData inputSize outputData outputSize s of
           ((res, outputData, outputSize), s1) \<Rightarrow>
             if res = kIOReturnSuccess then
               ((res, kinfo\<lparr>SMCKeyData_keyInfo_t.dataSize :=
                              SMCKeyData_keyInfo_t.dataSize (keyInfo outputData),
                            SMCKeyData_keyInfo_t.dataType :=
                              SMCKeyData_keyInfo_t.dataType (keyInfo outputData),
                            dataAttributes := dataAttributes (keyInfo outputData)\<rparr>), s1)
             else ((res, kinfo), s1))"

section \<open>Key value reader\<close>

text \<open>
  \<^verbatim>\<open>strncpy(dst, src, n)\<close> stores exactly \<open>n\<close> bytes: the bytes of \<open>src\<close> up to its
  terminator, then zero bytes. It reads \<open>src\<close> only as far as that, and reading past
  the end of the source object is undefined.
\<close>

fun strncpy_bytes :: "string \<Rightarrow> nat \<Rightarrow> string option" where
  "strncpy_bytes src 0 = Some []"
| "strncpy_bytes [] (Suc n) = None"
| "strncpy_bytes (c # cs) (Suc n) =
     (if c = NUL then Some (replicate (Suc n) NUL)
      else map_option ((#) c) (strncpy_bytes cs n))"

definition strncpy :: "string \<Rightarrow> string \<Rightarrow> nat \<Rightarrow> string option" where
  "strncpy dst src n =
     (if n \<le> length dst then map_option (\<lambda>bs. bs @ drop n dst) (strncpy_bytes src n)
      else None)"

text \<open>
  \<^verbatim>\<open>memcpy(dst, src, n)\<close> between two arrays of the same declared length \<open>n\<close>.
\<close>

definition memcpy :: "'a list \<Rightarrow> 'a list \<Rightarrow> nat \<Rightarrow> 'a list" where
  "memcpy dst src n = take n src @ drop n dst"

text \<open>
  \<^verbatim>\<open>SMCReadKey(conn, key, val)\<close>: \<open>kstr\<close> is the key string, \<open>v\<close> what \<^verbatim>\<open>*val\<close>
  holds at entry. The result is \<open>None\<close> where the C behaviour is undefined (the key
  object ends before the bytes the function reads).
\<close>

definition SMCReadKey ::
  "'w IOKit \<Rightarrow> io_connect_t \<Rightarrow> string \<Rightarrow> SMCVal_t \<Rightarrow> 'w sys
     \<Rightarrow> ((kern_return_t \<times> SMCVal_t) \<times> 'w sys) option" where
  "SMCReadKey h conn kstr v s =
     (let inputSize = sizeof_SMCKeyData_t;
          outputSize = sizeof_SMCKeyData_t;
          inputData = zero_SMCKeyData_t;
          outputData = zero_SMCKeyData_t;
          kinfo = zero_SMCKeyData_keyInfo_t;
          v = zero_SMCVal_t
      in (case strncpy (SMCVal_t.key v) kstr 4 of
            None \<Rightarrow> None
          | Some copied \<Rightarrow>
             (let v = v\<lparr>SMCVal_t.key := copied\<rparr>;
                  v = v\<lparr>SMCVal_t.key := (SMCVal_t.key v)[4 := NUL]\<rparr>
              in (case SMCKeyToUInt32 kstr of
                    None \<Rightarrow> None
                  | Some keyUInt \<Rightarrow>
                     (case SMCGetKeyInfo h conn keyUInt kinfo s of
                        ((res, kinfo), s1) \<Rightarrow>
       if res \<noteq> kIOReturnSuccess then Some ((res, v), s1)
       else
         (let v = v\<lparr>SMCVal_t.dataSize := SMCKeyData_keyInfo_t.dataSize kinfo\<rparr>;
              v = v\<lparr>SMCVal_t.dataType := SMCKeyData_keyInfo_t.dataType kinfo\<rparr>;
              inputData = inputData\<lparr>SMCKeyData_t.key := keyUInt\<rparr>;
              inputData = inputData\<lparr>data8 := SMC_CMD_READ_BYTES\<rparr>;
              inputData = inputData\<lparr>keyInfo := (keyInfo inputData)
                \<lparr>SMCKeyData_keyInfo_t.dataSize := SMCKeyData_keyInfo_t.dataSize kinfo\<rparr>\<rparr>
          in (case callStructMethod h conn 2 inputData inputSize outputData outputSize s1 of
                ((res, outputData, outputSize), s2) \<Rightarrow>
                  if res = kIOReturnSuccess then
                    Some ((res, v\<lparr>SMCVal_t.bytes :=
                             memcpy (SMCVal_t.bytes v) (SMCKeyData_t.bytes outputData)
                               SMC_KEY_DATA_SIZE\<rparr>), s2)
                  else Some ((res, v), s2))))))))"

section \<open>Notions the properties are stated with\<close>

text \<open>
  The two request records the module sends, as the assignments of \<^verbatim>\<open>SMCGetKeyInfo\<close>
  and \<^verbatim>\<open>SMCReadKey\<close> leave them in the zeroed \<^verbatim>\<open>inputData\<close>.
\<close>

definition key_info_request :: "uint32_t \<Rightarrow> SMCKeyData_t" where
  "key_info_request k =
     zero_SMCKeyData_t\<lparr>SMCKeyData_t.key := k, data8 := SMC_CMD_READ_KEYINFO\<rparr>"

definition read_bytes_request :: "uint32_t \<Rightarrow> uint32_t \<Rightarrow> SMCKeyData_t" where
  "read_bytes_request k sz =
     zero_SMCKeyData_t\<lparr>SMCKeyData_t.key := k, data8 := SMC_CMD_READ_BYTES,
       keyInfo := zero_SMCKeyData_keyInfo_t\<lparr>SMCKeyData_keyInfo_t.dataSize := sz\<rparr>\<rparr>"

text \<open>The encoded key a recorded service call carried in its request record.\<close>

fun call_key :: "iokit_call \<Rightarrow> uint32_t option" where
  "call_key (Call_IOConnectCallStructMethod conn selector inputData inputSize outputSize) =
     Some (SMCKeyData_t.key inputData)"
| "call_key _ = None"

fun is_IOServiceOpen :: "iokit_call \<Rightarrow> bool" where
  "is_IOServiceOpen (Call_IOServiceOpen service task ty) = True"
| "is_IOServiceOpen _ = False"

text \<open>
  The length of a C string: the number of bytes before its terminator, \<open>None\<close> for
  an object that holds no terminator.
\<close>

fun strlen :: "string \<Rightarrow> nat option" where
  "strlen [] = None"
| "strlen (c # cs) = (if c = NUL then Some 0 else map_option Suc (strlen cs))"

subsection \<open>A scripted host\<close>

text \<open>
  A host for concrete runs. Its world says which service a lookup finds (0 for none),
  what opening it returns, and the replies, in order, that the service gives to the
  structure calls; with no reply left a call fails with \<^verbatim>\<open>kIOReturnError\<close>.
\<close>

record script =
  registered :: io_service_t
  open_status :: kern_return_t
  replies :: "(kern_return_t \<times> SMCKeyData_t) list"

definition scripted_host :: "script IOKit" where
  "scripted_host =
     \<lparr>kIOMainPortDefault = 0,
      mach_task_self = 0x103,
      IOServiceMatching = (\<lambda>name w. (0x1000, w)),
      IOServiceGetMatchingService = (\<lambda>port matching w. (registered w, w)),
      IOServiceOpen = (\<lambda>service task ty conn w.
        ((open_status w, if open_status w = 0 then 0x2003 else conn), w)),
      IOObjectRelease = (\<lambda>service w. (0, w)),
      IOServiceClose = (\<lambda>conn w. (0, w)),
      IOConnectCallStructMethod = (\<lambda>conn selector inputData inputSize outputData outputSize w.
        case replies w of
          [] \<Rightarrow> ((kIOReturnError, outputData, outputSize), w)
        | (r, d) # rest \<Rightarrow> ((r, d, outputSize), w\<lparr>replies := rest\<rparr>))\<rparr>"

definition boot :: "script \<Rightarrow> script sys" where
  "boot w = \<lparr>world = w, calls = []\<rparr>"

definition serving :: "(kern_return_t \<times> SMCKeyData_t) list \<Rightarrow> script" where
  "serving rs = \<lparr>registered = 0x1503, open_status = 0, replies = rs\<rparr>"

definition no_service :: script where
  "no_service = \<lparr>registered = 0, open_status = 0, replies = []\<rparr>"

text \<open>
  The reply of the service to a metadata query for a 4-byte \<^verbatim>\<open>flt \<close> key, and a reply
  carrying a payload in its byte buffer.
\<close>

definition flt_info :: SMCKeyData_keyInfo_t where
  "flt_info =
     \<lparr>SMCKeyData_keyInfo_t.dataSize = 4, SMCKeyData_keyInfo_t.dataType = 0x666C7420,
      dataAttributes = 0x80\<rparr>"

definition flt_info_reply :: SMCKeyData_t where
  "flt_info_reply = zero_SMCKeyData_t\<lparr>keyInfo := flt_info\<rparr>"

definition payload_reply :: SMCKeyData_t where
  "payload_reply =
     zero_SMCKeyData_t\<lparr>SMCKeyData_t.bytes :=
       [0x42, 0x28, 0x00, 0x00, 0xAA, 0xBB] @ replicate 26 0xEE\<rparr>"

definition stale_val :: SMCVal_t where
  "stale_val =
     \<lparr>SMCVal_t.key = ''Old!?'', SMCVal_t.dataSize = 2, SMCVal_t.dataType = 0x75693136,
      SMCVal_t.bytes = replicate 32 0x77\<rparr>"

section \<open>Properties of the key codec\<close>

subsection \<open>Packing of unsigned bytes\<close>

text \<open>
  Four bytes that are zero-extended and shifted to the positions 24, 16, 8 and 0 do
  not overlap: each is read back from its own position.
\<close>

lemma pack_byte0:
  fixes x0 x1 x2 x3 :: "8 word"
  shows "ucast (drop_bit 24 (push_bit 24 (ucast x0) OR push_bit 16 (ucast x1) OR
           push_bit 8 (ucast x2) OR (ucast x3 :: 32 word))) = x0"
  by (rule bit_word_eqI) (auto simp add: bit_simps dest: bit_imp_le_length)

lemma pack_byte1:
  fixes x0 x1 x2 x3 :: "8 word"
  shows "ucast (drop_bit 16 (push_bit 24 (ucast x0) OR push_bit 16 (ucast x1) OR
           push_bit 8 (ucast x2) OR (ucast x3 :: 32 word))) = x1"
  by (rule bit_word_eqI) (auto simp add: bit_simps dest: bit_imp_le_length)

lemma pack_byte2:
  fixes x0 x1 x2 x3 :: "8 word"
  shows "ucast (drop_bit 8 (push_bit 24 (ucast x0) OR push_bit 16 (ucast x1) OR
           push_bit 8 (ucast x2) OR (ucast x3 :: 32 word))) = x2"
  by (rule bit_word_eqI) (auto simp add: bit_simps dest: bit_imp_le_length)

lemma pack_byte3:
  fixes x0 x1 x2 x3 :: "8 word"
  shows "ucast (push_bit 24 (ucast x0) OR push_bit 16 (ucast x1) OR
           push_bit 8 (ucast x2) OR (ucast x3 :: 32 word)) = x3"
  by (rule bit_word_eqI) (auto simp add: bit_simps dest: bit_imp_le_length)

subsection \<open>Characters as bytes\<close>

lemma byte_of_char: "(of_char c :: 8 word) = of_nat (of_char c)"
  by (simp add: of_nat_of_char)

lemma unat_byte_of_char: "unat (of_char c :: 8 word) = of_char c"
proof -
  have "(of_char c :: nat) < 256" by simp
  then show ?thesis
    by (simp add: byte_of_char unat_of_nat)
qed

lemma char_of_low_byte: "char_of (unat (w :: 32 word)) = char_of (unat (ucast w :: 8 word))"
  by (simp add: char_of_def bit_simps)

lemma char_of_low_byte_eq:
  assumes "(ucast (w :: 32 word) :: 8 word) = of_char c"
  shows "char_of (unat w) = c"
  by (simp add: char_of_low_byte assms unat_byte_of_char)

lemma ascii_bit7:
  assumes "(of_char c :: nat) < 128"
  shows "\<not> bit (of_char c :: 8 word) 7"
proof -
  have "\<not> bit (of_char c :: nat) 7"
    using assms by (simp add: bit_iff_odd_drop_bit drop_bit_eq_div)
  then show ?thesis
    by (simp only: byte_of_char bit_of_nat_iff) simp
qed

text \<open>On a byte below 0x80 the sign extension is a zero extension.\<close>

lemma uint32_of_char_ascii:
  assumes "(of_char c :: nat) < 128"
  shows "uint32_of_char c = ucast (of_char c :: 8 word)"
  unfolding uint32_of_char_def
proof (rule bit_word_eqI)
  fix n
  assume "n < LENGTH(32)"
  have hi: "\<not> bit (of_char c :: 8 word) m" if "7 \<le> m" for m
  proof (cases "m = 7")
    case True
    then show ?thesis using ascii_bit7 [OF assms] by simp
  next
    case False
    with that have "8 \<le> m" by simp
    then show ?thesis by (auto dest: bit_imp_le_length)
  qed
  show "bit (scast (of_char c :: 8 word) :: 32 word) n
      = bit (ucast (of_char c :: 8 word) :: 32 word) n"
    using hi [of n] hi [of 7] by (auto simp add: bit_simps min_def)
qed

lemma ascii_key_cases:
  assumes "ascii_key k"
  obtains c0 c1 c2 c3 where "k = [c0, c1, c2, c3]"
    "(of_char c0 :: nat) < 128" "(of_char c1 :: nat) < 128"
    "(of_char c2 :: nat) < 128" "(of_char c3 :: nat) < 128"
proof -
  from assms have len: "length k = 4" and asc: "\<forall>c \<in> set k. (of_char c :: nat) < 128"
    by (simp_all add: ascii_key_def)
  from len obtain c0 c1 c2 c3 where k: "k = [c0, c1, c2, c3]"
    by (auto simp add: length_Suc_conv numeral_eq_Suc)
  with asc that show thesis by simp
qed

lemma SMCKeyToUInt32_ascii:
  assumes "(of_char c0 :: nat) < 128" "(of_char c1 :: nat) < 128"
    "(of_char c2 :: nat) < 128" "(of_char c3 :: nat) < 128"
  shows "SMCKeyToUInt32 (c0 # c1 # c2 # c3 # rest) =
    Some (push_bit 24 (ucast (of_char c0 :: 8 word)) OR
          push_bit 16 (ucast (of_char c1 :: 8 word)) OR
          push_bit 8 (ucast (of_char c2 :: 8 word)) OR
          ucast (of_char c3 :: 8 word))"
  by (simp only: SMCKeyToUInt32.simps uint32_of_char_ascii assms)

lemma uint32_bytes_msb_first_pack:
  "uint32_bytes_msb_first
     (push_bit 24 (ucast (of_char c0 :: 8 word)) OR
      push_bit 16 (ucast (of_char c1 :: 8 word)) OR
      push_bit 8 (ucast (of_char c2 :: 8 word)) OR
      ucast (of_char c3 :: 8 word)) = [c0, c1, c2, c3]"
  unfolding uint32_bytes_msb_first_def
  by (intro arg_cong2 [where f = "(#)"] refl char_of_low_byte_eq
      pack_byte0 pack_byte1 pack_byte2 pack_byte3)

lemma ascii_decode_encode:
  assumes "ascii_key k"
  shows "map_option uint32_bytes_msb_first (SMCKeyToUInt32 (k @ rest)) = Some k"
proof -
  from assms obtain c0 c1 c2 c3 where k: "k = [c0, c1, c2, c3]"
    and a: "(of_char c0 :: nat) < 128" "(of_char c1 :: nat) < 128"
      "(of_char c2 :: nat) < 128" "(of_char c3 :: nat) < 128"
    by (rule ascii_key_cases)
  have "SMCKeyToUInt32 (k @ rest) = SMCKeyToUInt32 (c0 # c1 # c2 # c3 # rest)"
    by (simp add: k)
  then show ?thesis
    by (simp only: SMCKeyToUInt32_ascii [OF a] option.map uint32_bytes_msb_first_pack k)
qed

subsection \<open>The round-trip law\<close>

text \<open>
  C1. For every key of four ASCII characters (each byte in 0x00..0x7F), whatever
  follows it in memory, \<open>SMCKeyToUInt32\<close> is defined and the four bytes of its
  result, most significant first, are the four characters of the key. Hence two
  ASCII keys with the same encoding are the same key: the encoding is a bijection
  between the ASCII keys and their 32-bit values.
\<close>

theorem SMCKeyToUInt32_ascii_roundtrip:
  assumes "ascii_key k"
  shows "map_option uint32_bytes_msb_first (SMCKeyToUInt32 (k @ rest)) = Some k \<and>
    (\<forall>k' rest'. ascii_key k' \<and> SMCKeyToUInt32 (k' @ rest') = SMCKeyToUInt32 (k @ rest)
       \<longrightarrow> k' = k)"
proof (intro conjI allI impI)
  show "map_option uint32_bytes_msb_first (SMCKeyToUInt32 (k @ rest)) = Some k"
    using assms by (rule ascii_decode_encode)
next
  fix k' rest'
  assume h: "ascii_key k' \<and> SMCKeyToUInt32 (k' @ rest') = SMCKeyToUInt32 (k @ rest)"
  then have "map_option uint32_bytes_msb_first (SMCKeyToUInt32 (k' @ rest')) = Some k'"
    by (intro ascii_decode_encode) simp
  moreover have "map_option uint32_bytes_msb_first (SMCKeyToUInt32 (k @ rest)) = Some k"
    using assms by (rule ascii_decode_encode)
  ultimately show "k' = k" using h by simp
qed

theorem SMCKeyToUInt32_ascii_roundtrip_witness:
  "ascii_key ''TC0P'' \<and>
   map_option uint32_bytes_msb_first (SMCKeyToUInt32 (''TC0P'' @ [NUL])) = Some ''TC0P''"
proof -
  have h: "ascii_key ''TC0P''" by (simp add: ascii_key_def)
  show ?thesis using h SMCKeyToUInt32_ascii_roundtrip [OF h, of "[NUL]"] by simp
qed

subsection \<open>Bytes from 0x80 on\<close>

text \<open>
  C4. The claim is that any four bytes, also bytes from 0x80 on, are packed verbatim,
  byte 0 in bits 31-24 down to byte 3 in bits 7-0, no byte reaching another's
  position. The code converts each \<^verbatim>\<open>char\<close> to \<^verbatim>\<open>uint32_t\<close> directly, so a byte
  from 0x80 on is sign-extended and sets every bit above its own position: for the
  bytes 0x54 0x80 0x43 0x50 the result is 0xFF804350 and not 0x54804350, byte 1
  having overwritten bits 31-24.
\<close>

theorem SMCKeyToUInt32_sign_extends:
  "SMCKeyToUInt32 [CHR 0x54, CHR 0x80, CHR 0x43, CHR 0x50] = Some 0xFF804350"
  by (simp add: uint32_of_char_def)

subsection \<open>A known key\<close>

text \<open>
  C9. \<open>SMCKeyToUInt32\<close> of the key string \<^verbatim>\<open>"TC0P"\<close> is 0x54433050, whatever follows
  the four characters in memory (the terminator of the literal, in particular).
\<close>

theorem SMCKeyToUInt32_TC0P:
  "SMCKeyToUInt32 (''TC0P'' @ rest) = Some 0x54433050"
  by (simp add: uint32_of_char_def)

section \<open>Properties of the calls to the host\<close>

lemma invoke_calls:
  assumes "invoke c f s = (r, s')"
  shows "calls s' = calls s @ [c]"
  using assms by (auto simp add: invoke_def split: prod.splits)

lemma callStructMethod_calls:
  assumes "callStructMethod h conn sel inp isz out osz s = (r, s')"
  shows "calls s' = calls s @ [Call_IOConnectCallStructMethod conn sel inp isz osz]"
  using assms unfolding callStructMethod_def by (rule invoke_calls)

section \<open>Properties of the connection manager\<close>

text \<open>
  C8. Where the lookup of the service returns the null handle, \<open>SMCOpen\<close> returns
  \<^verbatim>\<open>kIOReturnNotFound\<close> (which is not the success status), leaves \<^verbatim>\<open>*conn\<close> as it
  was, and has called the host twice only, to build the matching dictionary and to
  look the service up: \<^verbatim>\<open>IOServiceOpen\<close> is not among its calls.
\<close>

theorem SMCOpen_no_service:
  assumes "invoke (Call_IOServiceMatching ''AppleSMC'') (IOServiceMatching h ''AppleSMC'') s
             = (matching, s1)"
    and "invoke (Call_IOServiceGetMatchingService (kIOMainPortDefault h) matching)
           (IOServiceGetMatchingService h (kIOMainPortDefault h) matching) s1 = (0, s2)"
  shows "SMCOpen h conn s = ((kIOReturnNotFound, conn), s2) \<and>
    kIOReturnNotFound \<noteq> kIOReturnSuccess \<and>
    calls s2 = calls s @ [Call_IOServiceMatching ''AppleSMC'',
      Call_IOServiceGetMatchingService (kIOMainPortDefault h) matching] \<and>
    \<not> list_ex is_IOServiceOpen (drop (length (calls s)) (calls s2))"
proof -
  have c: "calls s2 = calls s @ [Call_IOServiceMatching ''AppleSMC'',
      Call_IOServiceGetMatchingService (kIOMainPortDefault h) matching]"
    using invoke_calls [OF assms(1)] invoke_calls [OF assms(2)] by simp
  have "SMCOpen h conn s = ((kIOReturnNotFound, conn), s2)"
    using assms by (simp add: SMCOpen_def)
  moreover have "kIOReturnNotFound \<noteq> kIOReturnSuccess"
    by (simp add: kIOReturnNotFound_def kIOReturnSuccess_def)
  ultimately show ?thesis using c by simp
qed

theorem SMCOpen_no_service_witness:
  "invoke (Call_IOServiceMatching ''AppleSMC'')
     (IOServiceMatching scripted_host ''AppleSMC'') (boot no_service)
     = (0x1000, \<lparr>world = no_service, calls = [Call_IOServiceMatching ''AppleSMC'']\<rparr>) \<and>
   invoke (Call_IOServiceGetMatchingService (kIOMainPortDefault scripted_host) 0x1000)
     (IOServiceGetMatchingService scripted_host (kIOMainPortDefault scripted_host) 0x1000)
     \<lparr>world = no_service, calls = [Call_IOServiceMatching ''AppleSMC'']\<rparr>
     = (0, \<lparr>world = no_service, calls = [Call_IOServiceMatching ''AppleSMC'',
              Call_IOServiceGetMatchingService 0 0x1000]\<rparr>) \<and>
   SMCOpen scripted_host 0xDEAD (boot no_service)
     = ((kIOReturnNotFound, 0xDEAD),
        \<lparr>world = no_service, calls = [Call_IOServiceMatching ''AppleSMC'',
              Call_IOServiceGetMatchingService 0 0x1000]\<rparr>)"
proof -
  have h1: "invoke (Call_IOServiceMatching ''AppleSMC'')
     (IOServiceMatching scripted_host ''AppleSMC'') (boot no_service)
     = (0x1000, \<lparr>world = no_service, calls = [Call_IOServiceMatching ''AppleSMC'']\<rparr>)"
    by (simp add: invoke_def scripted_host_def boot_def)
  have h2: "invoke (Call_IOServiceGetMatchingService (kIOMainPortDefault scripted_host) 0x1000)
     (IOServiceGetMatchingService scripted_host (kIOMainPortDefault scripted_host) 0x1000)
     \<lparr>world = no_service, calls = [Call_IOServiceMatching ''AppleSMC'']\<rparr>
     = (0, \<lparr>world = no_service, calls = [Call_IOServiceMatching ''AppleSMC'',
              Call_IOServiceGetMatchingService 0 0x1000]\<rparr>)"
    by (simp add: invoke_def scripted_host_def no_service_def)
  show ?thesis
    using h1 h2 SMCOpen_no_service [OF h1 h2, of "0xDEAD"] by simp
qed

section \<open>Properties of the key metadata query\<close>

lemma SMCGetKeyInfo_unfold:
  "SMCGetKeyInfo h conn k kinfo s =
     (case callStructMethod h conn 2 (key_info_request k) sizeof_SMCKeyData_t
             zero_SMCKeyData_t sizeof_SMCKeyData_t s of
        ((res, outputData, outputSize), s1) \<Rightarrow>
          if res = kIOReturnSuccess then
            ((res, kinfo\<lparr>SMCKeyData_keyInfo_t.dataSize :=
                           SMCKeyData_keyInfo_t.dataSize (keyInfo outputData),
                         SMCKeyData_keyInfo_t.dataType :=
                           SMCKeyData_keyInfo_t.dataType (keyInfo outputData),
                         dataAttributes := dataAttributes (keyInfo outputData)\<rparr>), s1)
          else ((res, kinfo), s1))"
  by (simp add: SMCGetKeyInfo_def key_info_request_def Let_def)

lemma SMCGetKeyInfo_calls:
  assumes "SMCGetKeyInfo h conn k kinfo s = (r, s1)"
  shows "calls s1 = calls s @
    [Call_IOConnectCallStructMethod conn 2 (key_info_request k)
       sizeof_SMCKeyData_t sizeof_SMCKeyData_t]"
proof -
  obtain res out osz s' where c: "callStructMethod h conn 2 (key_info_request k)
      sizeof_SMCKeyData_t zero_SMCKeyData_t sizeof_SMCKeyData_t s = ((res, out, osz), s')"
    by (metis prod_cases3 surj_pair)
  with assms have "s1 = s'"
    by (auto simp add: SMCGetKeyInfo_unfold split: if_splits)
  with callStructMethod_calls [OF c] show ?thesis by simp
qed

text \<open>
  C7. Where the service call of \<open>SMCGetKeyInfo\<close> returns a status other than
  success, \<open>SMCGetKeyInfo\<close> returns that status and the caller's record unchanged,
  in all three of its fields.
\<close>

theorem SMCGetKeyInfo_failure:
  assumes "callStructMethod h conn 2 (key_info_request k) sizeof_SMCKeyData_t
             zero_SMCKeyData_t sizeof_SMCKeyData_t s = ((res, out, osz), s1)"
    and "res \<noteq> kIOReturnSuccess"
  shows "SMCGetKeyInfo h conn k kinfo s = ((res, kinfo), s1)"
  using assms by (simp add: SMCGetKeyInfo_unfold)

theorem SMCGetKeyInfo_failure_witness:
  "callStructMethod scripted_host 7 2 (key_info_request 0x5A5A5A5A) sizeof_SMCKeyData_t
     zero_SMCKeyData_t sizeof_SMCKeyData_t (boot (serving [(kIOReturnError, flt_info_reply)]))
     = ((kIOReturnError, flt_info_reply, 80),
        \<lparr>world = serving [],
         calls = [Call_IOConnectCallStructMethod 7 2 (key_info_request 0x5A5A5A5A) 80 80]\<rparr>) \<and>
   kIOReturnError \<noteq> kIOReturnSuccess \<and>
   SMCGetKeyInfo scripted_host 7 0x5A5A5A5A
     \<lparr>SMCKeyData_keyInfo_t.dataSize = 2, SMCKeyData_keyInfo_t.dataType = 0x75693136,
      dataAttributes = 1\<rparr>
     (boot (serving [(kIOReturnError, flt_info_reply)]))
     = ((kIOReturnError,
         \<lparr>SMCKeyData_keyInfo_t.dataSize = 2, SMCKeyData_keyInfo_t.dataType = 0x75693136,
          dataAttributes = 1\<rparr>),
        \<lparr>world = serving [],
         calls = [Call_IOConnectCallStructMethod 7 2 (key_info_request 0x5A5A5A5A) 80 80]\<rparr>)"
proof -
  have h1: "callStructMethod scripted_host 7 2 (key_info_request 0x5A5A5A5A)
      sizeof_SMCKeyData_t zero_SMCKeyData_t sizeof_SMCKeyData_t
      (boot (serving [(kIOReturnError, flt_info_reply)]))
     = ((kIOReturnError, flt_info_reply, 80),
        \<lparr>world = serving [],
         calls = [Call_IOConnectCallStructMethod 7 2 (key_info_request 0x5A5A5A5A) 80 80]\<rparr>)"
    by (simp add: callStructMethod_def invoke_def scripted_host_def boot_def serving_def
        sizeof_SMCKeyData_t_def)
  have h2: "kIOReturnError \<noteq> kIOReturnSuccess"
    by (simp add: kIOReturnError_def kIOReturnSuccess_def)
  show ?thesis
    using h1 h2 SMCGetKeyInfo_failure [OF h1 h2] by simp
qed

section \<open>Properties of the key value reader\<close>

subsection \<open>The copy of the key\<close>

lemma strncpy_bytes_length:
  "strncpy_bytes src n = Some bs \<Longrightarrow> length bs = n"
  by (induction src n arbitrary: bs rule: strncpy_bytes.induct) (auto split: if_splits)

lemma strncpy_bytes_defined:
  "n \<le> length src \<Longrightarrow> \<exists>bs. strncpy_bytes src n = Some bs"
  by (induction src n rule: strncpy_bytes.induct) auto

lemma strncpy_bytes_take: "strncpy_bytes (take n src) n = strncpy_bytes src n"
  by (induction src n rule: strncpy_bytes.induct) auto

lemma strlen_strncpy_bytes:
  "strlen src = Some n \<Longrightarrow> m \<le> n \<Longrightarrow> strncpy_bytes src m = Some (take m src) \<and> m < length src"
  by (induction src m arbitrary: n rule: strncpy_bytes.induct) (auto split: if_splits)

lemma SMCKeyToUInt32_Some_length:
  "SMCKeyToUInt32 kstr = Some k \<Longrightarrow> 4 \<le> length kstr"
  by (cases kstr rule: SMCKeyToUInt32.cases) auto

lemma SMCKeyToUInt32_defined:
  "4 \<le> length kstr \<Longrightarrow> \<exists>k. SMCKeyToUInt32 kstr = Some k"
  by (cases kstr rule: SMCKeyToUInt32.cases) auto

lemma SMCKeyToUInt32_take: "SMCKeyToUInt32 (take 4 kstr) = SMCKeyToUInt32 kstr"
  by (cases kstr rule: SMCKeyToUInt32.cases) auto

lemma SMCKeyToUInt32_copied:
  assumes "SMCKeyToUInt32 kstr = Some keyUInt"
  obtains copied where "strncpy_bytes kstr 4 = Some copied" "length copied = 4"
  using assms strncpy_bytes_defined [of 4 kstr] SMCKeyToUInt32_Some_length [OF assms]
    strncpy_bytes_length [of kstr 4]
  by blast

subsection \<open>The two phases\<close>

text \<open>
  Once the key is readable, a read is the metadata query followed, when that
  succeeds, by the value-read call; the record returned is the zeroed record with
  the fields each phase stores.
\<close>

lemma SMCReadKey_unfold:
  assumes k: "SMCKeyToUInt32 kstr = Some keyUInt"
    and c: "strncpy_bytes kstr 4 = Some copied"
  shows "SMCReadKey h conn kstr v s =
    (case SMCGetKeyInfo h conn keyUInt zero_SMCKeyData_keyInfo_t s of
       ((res, kinfo), s1) \<Rightarrow>
         if res \<noteq> kIOReturnSuccess
         then Some ((res, zero_SMCVal_t\<lparr>SMCVal_t.key := copied @ [NUL]\<rparr>), s1)
         else
           (case callStructMethod h conn 2
                   (read_bytes_request keyUInt (SMCKeyData_keyInfo_t.dataSize kinfo))
                   sizeof_SMCKeyData_t zero_SMCKeyData_t sizeof_SMCKeyData_t s1 of
              ((res, outputData, outputSize), s2) \<Rightarrow>
                if res = kIOReturnSuccess then
                  Some ((res, zero_SMCVal_t\<lparr>SMCVal_t.key := copied @ [NUL],
                      SMCVal_t.dataSize := SMCKeyData_keyInfo_t.dataSize kinfo,
                      SMCVal_t.dataType := SMCKeyData_keyInfo_t.dataType kinfo,
                      SMCVal_t.bytes := take SMC_KEY_DATA_SIZE (SMCKeyData_t.bytes outputData)\<rparr>), s2)
                else
                  Some ((res, zero_SMCVal_t\<lparr>SMCVal_t.key := copied @ [NUL],
                      SMCVal_t.dataSize := SMCKeyData_keyInfo_t.dataSize kinfo,
                      SMCVal_t.dataType := SMCKeyData_keyInfo_t.dataType kinfo\<rparr>), s2)))"
proof -
  have len: "length copied = 4" using c by (rule strncpy_bytes_length)
  have upd: "(copied @ [NUL])[4 := NUL] = copied @ [NUL]"
    using len by (simp add: list_update_append)
  have cp: "strncpy (SMCVal_t.key zero_SMCVal_t) kstr 4 = Some (copied @ [NUL])"
    using len by (simp add: strncpy_def zero_SMCVal_t_def c)
  have zk: "keyInfo zero_SMCKeyData_t = zero_SMCKeyData_keyInfo_t"
    by (simp add: zero_SMCKeyData_t_def)
  have zb: "drop SMC_KEY_DATA_SIZE (SMCVal_t.bytes zero_SMCVal_t) = []"
    by (simp add: zero_SMCVal_t_def)
  show ?thesis
    unfolding SMCReadKey_def Let_def
    by (simp add: cp k upd zk zb read_bytes_request_def memcpy_def
        split: prod.splits)
qed

text \<open>Only the first four bytes of the key are read.\<close>

lemma SMCReadKey_take: "SMCReadKey h conn (take 4 kstr) v s = SMCReadKey h conn kstr v s"
  unfolding SMCReadKey_def strncpy_def strncpy_bytes_take SMCKeyToUInt32_take
  by (rule refl)

text \<open>What \<^verbatim>\<open>*val\<close> held at entry has no part in the outcome.\<close>

lemma SMCReadKey_ignores_val: "SMCReadKey h conn kstr v s = SMCReadKey h conn kstr v0 s"
  by (simp add: SMCReadKey_def)

lemma SMCReadKey_calls:
  assumes k: "SMCKeyToUInt32 kstr = Some keyUInt"
  shows "\<exists>res v' s' cs. SMCReadKey h conn kstr v s = Some ((res, v'), s') \<and>
    calls s' = calls s @ cs \<and> cs \<noteq> [] \<and> length cs \<le> 2 \<and>
    list_all (\<lambda>c. call_key c = Some keyUInt) cs"
proof -
  from k obtain copied where c: "strncpy_bytes kstr 4 = Some copied"
    by (rule SMCKeyToUInt32_copied)
  obtain r1 kinfo s1 where g: "SMCGetKeyInfo h conn keyUInt zero_SMCKeyData_keyInfo_t s
      = ((r1, kinfo), s1)"
    by (metis surj_pair)
  note t1 = SMCGetKeyInfo_calls [OF g]
  show ?thesis
  proof (cases "r1 = kIOReturnSuccess")
    case False
    then show ?thesis
      using t1 by (simp add: SMCReadKey_unfold [OF k c] g key_info_request_def)
  next
    case True
    obtain r2 out osz s2 where r: "callStructMethod h conn 2
        (read_bytes_request keyUInt (SMCKeyData_keyInfo_t.dataSize kinfo))
        sizeof_SMCKeyData_t zero_SMCKeyData_t sizeof_SMCKeyData_t s1 = ((r2, out, osz), s2)"
      by (metis prod_cases3 surj_pair)
    note t2 = callStructMethod_calls [OF r]
    obtain v' where rk: "SMCReadKey h conn kstr v s = Some ((r2, v'), s2)"
      using True by (cases "r2 = kIOReturnSuccess")
        (simp_all add: SMCReadKey_unfold [OF k c] g r)
    have "calls s2 = calls s @
        [Call_IOConnectCallStructMethod conn 2 (key_info_request keyUInt)
           sizeof_SMCKeyData_t sizeof_SMCKeyData_t,
         Call_IOConnectCallStructMethod conn 2
           (read_bytes_request keyUInt (SMCKeyData_keyInfo_t.dataSize kinfo))
           sizeof_SMCKeyData_t sizeof_SMCKeyData_t]"
      using t1 t2 by simp
    with rk show ?thesis
      by (simp add: key_info_request_def read_bytes_request_def)
  qed
qed

subsection \<open>Failure of the metadata query\<close>

text \<open>
  C2. For every connection, readable key and output record: where the metadata
  query of \<open>SMCReadKey\<close> returns a status other than success, \<open>SMCReadKey\<close> returns
  that status; the only call it has made to the service is the metadata query (no
  value-read call); and the output record is zero (\<open>dataSize\<close>, \<open>dataType\<close> and
  all 32 bytes of the buffer) except for the key field, which holds the copied key
  and its terminator.
\<close>

theorem SMCReadKey_metadata_failure:
  assumes "SMCKeyToUInt32 kstr = Some keyUInt"
    and "SMCGetKeyInfo h conn keyUInt zero_SMCKeyData_keyInfo_t s = ((res, kinfo), s1)"
    and "res \<noteq> kIOReturnSuccess"
  shows "\<exists>copied. strncpy_bytes kstr 4 = Some copied \<and>
    SMCReadKey h conn kstr v s =
      Some ((res, \<lparr>SMCVal_t.key = copied @ [NUL], SMCVal_t.dataSize = 0,
                   SMCVal_t.dataType = 0,
                   SMCVal_t.bytes = replicate SMC_KEY_DATA_SIZE 0\<rparr>), s1) \<and>
    calls s1 = calls s @
      [Call_IOConnectCallStructMethod conn 2 (key_info_request keyUInt)
         sizeof_SMCKeyData_t sizeof_SMCKeyData_t]"
proof -
  from assms(1) obtain copied where c: "strncpy_bytes kstr 4 = Some copied"
    by (rule SMCKeyToUInt32_copied)
  have "SMCReadKey h conn kstr v s =
      Some ((res, zero_SMCVal_t\<lparr>SMCVal_t.key := copied @ [NUL]\<rparr>), s1)"
    by (simp add: SMCReadKey_unfold [OF assms(1) c] assms(2,3))
  then show ?thesis
    using c SMCGetKeyInfo_calls [OF assms(2)] by (simp add: zero_SMCVal_t_def)
qed

theorem SMCReadKey_metadata_failure_witness:
  "SMCKeyToUInt32 (''ZZZZ'' @ [NUL]) = Some 0x5A5A5A5A \<and>
   SMCGetKeyInfo scripted_host 7 0x5A5A5A5A zero_SMCKeyData_keyInfo_t
     (boot (serving [(kIOReturnError, payload_reply)]))
     = ((kIOReturnError, zero_SMCKeyData_keyInfo_t),
        \<lparr>world = serving [],
         calls = [Call_IOConnectCallStructMethod 7 2 (key_info_request 0x5A5A5A5A) 80 80]\<rparr>) \<and>
   kIOReturnError \<noteq> kIOReturnSuccess \<and>
   SMCReadKey scripted_host 7 (''ZZZZ'' @ [NUL]) stale_val
     (boot (serving [(kIOReturnError, payload_reply)]))
     = Some ((kIOReturnError,
              \<lparr>SMCVal_t.key = ''ZZZZ'' @ [NUL], SMCVal_t.dataSize = 0, SMCVal_t.dataType = 0,
               SMCVal_t.bytes = replicate 32 0\<rparr>),
             \<lparr>world = serving [],
              calls = [Call_IOConnectCallStructMethod 7 2 (key_info_request 0x5A5A5A5A) 80 80]\<rparr>)"
proof -
  have h1: "SMCKeyToUInt32 (''ZZZZ'' @ [NUL]) = Some 0x5A5A5A5A"
    by (simp add: uint32_of_char_def)
  have h2: "SMCGetKeyInfo scripted_host 7 0x5A5A5A5A zero_SMCKeyData_keyInfo_t
     (boot (serving [(kIOReturnError, payload_reply)]))
     = ((kIOReturnError, zero_SMCKeyData_keyInfo_t),
        \<lparr>world = serving [],
         calls = [Call_IOConnectCallStructMethod 7 2 (key_info_request 0x5A5A5A5A) 80 80]\<rparr>)"
    by (simp add: SMCGetKeyInfo_unfold callStructMethod_def invoke_def scripted_host_def
        boot_def serving_def sizeof_SMCKeyData_t_def kIOReturnError_def kIOReturnSuccess_def)
  have h3: "kIOReturnError \<noteq> kIOReturnSuccess"
    by (simp add: kIOReturnError_def kIOReturnSuccess_def)
  have c: "strncpy_bytes (''ZZZZ'' @ [NUL]) 4 = Some ''ZZZZ''"
    by (simp add: numeral_eq_Suc NUL_def)
  show ?thesis
    using h1 h2 h3 c SMCReadKey_metadata_failure [OF h1 h2 h3, of stale_val]
    by (simp add: SMC_KEY_DATA_SIZE_def)
qed

subsection \<open>Failure of the value read\<close>

text \<open>
  C3. Where the metadata query succeeds and the value-read call returns a status
  other than success, \<open>SMCReadKey\<close> returns the status of the value-read call, and
  \<open>dataSize\<close> and \<open>dataType\<close> of the output record are the values the metadata
  query gave.
\<close>

theorem SMCReadKey_read_failure_metadata:
  assumes "SMCKeyToUInt32 kstr = Some keyUInt"
    and "SMCGetKeyInfo h conn keyUInt zero_SMCKeyData_keyInfo_t s
           = ((kIOReturnSuccess, kinfo), s1)"
    and "callStructMethod h conn 2
           (read_bytes_request keyUInt (SMCKeyData_keyInfo_t.dataSize kinfo))
           sizeof_SMCKeyData_t zero_SMCKeyData_t sizeof_SMCKeyData_t s1
           = ((res, out, osz), s2)"
    and "res \<noteq> kIOReturnSuccess"
  shows "\<exists>v'. SMCReadKey h conn kstr v s = Some ((res, v'), s2) \<and>
    SMCVal_t.dataSize v' = SMCKeyData_keyInfo_t.dataSize kinfo \<and>
    SMCVal_t.dataType v' = SMCKeyData_keyInfo_t.dataType kinfo"
proof -
  from assms(1) obtain copied where c: "strncpy_bytes kstr 4 = Some copied"
    by (rule SMCKeyToUInt32_copied)
  show ?thesis
    by (simp add: SMCReadKey_unfold [OF assms(1) c] assms(2,3,4))
qed

theorem SMCReadKey_read_failure_metadata_witness:
  "SMCKeyToUInt32 (''TC0P'' @ [NUL]) = Some 0x54433050 \<and>
   SMCGetKeyInfo scripted_host 7 0x54433050 zero_SMCKeyData_keyInfo_t
     (boot (serving [(kIOReturnSuccess, flt_info_reply), (kIOReturnError, payload_reply)]))
     = ((kIOReturnSuccess, flt_info),
        \<lparr>world = serving [(kIOReturnError, payload_reply)],
         calls = [Call_IOConnectCallStructMethod 7 2 (key_info_request 0x54433050) 80 80]\<rparr>) \<and>
   callStructMethod scripted_host 7 2
     (read_bytes_request 0x54433050 (SMCKeyData_keyInfo_t.dataSize flt_info))
     sizeof_SMCKeyData_t zero_SMCKeyData_t sizeof_SMCKeyData_t
     \<lparr>world = serving [(kIOReturnError, payload_reply)],
      calls = [Call_IOConnectCallStructMethod 7 2 (key_info_request 0x54433050) 80 80]\<rparr>
     = ((kIOReturnError, payload_reply, 80),
        \<lparr>world = serving [],
         calls = [Call_IOConnectCallStructMethod 7 2 (key_info_request 0x54433050) 80 80,
                  Call_IOConnectCallStructMethod 7 2 (read_bytes_request 0x54433050 4) 80 80]\<rparr>) \<and>
   kIOReturnError \<noteq> kIOReturnSuccess \<and>
   map_option (\<lambda>r. (fst (fst r), SMCVal_t.dataSize (snd (fst r)),
                     SMCVal_t.dataType (snd (fst r))))
     (SMCReadKey scripted_host 7 (''TC0P'' @ [NUL]) stale_val
        (boot (serving [(kIOReturnSuccess, flt_info_reply), (kIOReturnError, payload_reply)])))
     = Some (kIOReturnError, 4, 0x666C7420)"
proof -
  have h1: "SMCKeyToUInt32 (''TC0P'' @ [NUL]) = Some 0x54433050"
    by (simp add: uint32_of_char_def)
  have h2: "SMCGetKeyInfo scripted_host 7 0x54433050 zero_SMCKeyData_keyInfo_t
     (boot (serving [(kIOReturnSuccess, flt_info_reply), (kIOReturnError, payload_reply)]))
     = ((kIOReturnSuccess, flt_info),
        \<lparr>world = serving [(kIOReturnError, payload_reply)],
         calls = [Call_IOConnectCallStructMethod 7 2 (key_info_request 0x54433050) 80 80]\<rparr>)"
    by (simp add: SMCGetKeyInfo_unfold callStructMethod_def invoke_def scripted_host_def
        boot_def serving_def sizeof_SMCKeyData_t_def flt_info_reply_def flt_info_def
        zero_SMCKeyData_keyInfo_t_def)
  have h3: "callStructMethod scripted_host 7 2
     (read_bytes_request 0x54433050 (SMCKeyData_keyInfo_t.dataSize flt_info))
     sizeof_SMCKeyData_t zero_SMCKeyData_t sizeof_SMCKeyData_t
     \<lparr>world = serving [(kIOReturnError, payload_reply)],
      calls = [Call_IOConnectCallStructMethod 7 2 (key_info_request 0x54433050) 80 80]\<rparr>
     = ((kIOReturnError, payload_reply, 80),
        \<lparr>world = serving [],
         calls = [Call_IOConnectCallStructMethod 7 2 (key_info_request 0x54433050) 80 80,
                  Call_IOConnectCallStructMethod 7 2 (read_bytes_request 0x54433050 4) 80 80]\<rparr>)"
    by (simp add: callStructMethod_def invoke_def scripted_host_def serving_def
        sizeof_SMCKeyData_t_def flt_info_def)
  have h4: "kIOReturnError \<noteq> kIOReturnSuccess"
    by (simp add: kIOReturnError_def kIOReturnSuccess_def)
  have d: "SMCKeyData_keyInfo_t.dataSize flt_info = 4"
    "SMCKeyData_keyInfo_t.dataType flt_info = 0x666C7420"
    by (simp_all add: flt_info_def)
  from SMCReadKey_read_failure_metadata [OF h1 h2 h3 h4, of stale_val]
  have "map_option (\<lambda>r. (fst (fst r), SMCVal_t.dataSize (snd (fst r)),
                     SMCVal_t.dataType (snd (fst r))))
     (SMCReadKey scripted_host 7 (''TC0P'' @ [NUL]) stale_val
        (boot (serving [(kIOReturnSuccess, flt_info_reply), (kIOReturnError, payload_reply)])))
     = Some (kIOReturnError, 4, 0x666C7420)"
    by (auto simp add: d)
  with h1 h2 h3 h4 show ?thesis by (intro conjI)
qed

text \<open>
  C10. In the same case (metadata query successful, value-read call failed) the
  32-byte buffer of the output record is all zero at return, whatever the failed
  response holds: the response is copied only after a successful read.
\<close>

theorem SMCReadKey_read_failure_bytes_zero:
  assumes "SMCKeyToUInt32 kstr = Some keyUInt"
    and "SMCGetKeyInfo h conn keyUInt zero_SMCKeyData_keyInfo_t s
           = ((kIOReturnSuccess, kinfo), s1)"
    and "callStructMethod h conn 2
           (read_bytes_request keyUInt (SMCKeyData_keyInfo_t.dataSize kinfo))
           sizeof_SMCKeyData_t zero_SMCKeyData_t sizeof_SMCKeyData_t s1
           = ((res, out, osz), s2)"
    and "res \<noteq> kIOReturnSuccess"
  shows "\<exists>v'. SMCReadKey h conn kstr v s = Some ((res, v'), s2) \<and>
    SMCVal_t.bytes v' = replicate SMC_KEY_DATA_SIZE 0"
proof -
  from assms(1) obtain copied where c: "strncpy_bytes kstr 4 = Some copied"
    by (rule SMCKeyToUInt32_copied)
  show ?thesis
    by (simp add: SMCReadKey_unfold [OF assms(1) c] assms(2,3,4) zero_SMCVal_t_def)
qed

theorem SMCReadKey_read_failure_bytes_zero_witness:
  "SMCKeyToUInt32 ''TB0T'' = Some 0x54423054 \<and>
   SMCGetKeyInfo scripted_host 9 0x54423054 zero_SMCKeyData_keyInfo_t
     (boot (serving [(kIOReturnSuccess, flt_info_reply), (kIOReturnNotFound, payload_reply)]))
     = ((kIOReturnSuccess, flt_info),
        \<lparr>world = serving [(kIOReturnNotFound, payload_reply)],
         calls = [Call_IOConnectCallStructMethod 9 2 (key_info_request 0x54423054) 80 80]\<rparr>) \<and>
   callStructMethod scripted_host 9 2
     (read_bytes_request 0x54423054 (SMCKeyData_keyInfo_t.dataSize flt_info))
     sizeof_SMCKeyData_t zero_SMCKeyData_t sizeof_SMCKeyData_t
     \<lparr>world = serving [(kIOReturnNotFound, payload_reply)],
      calls = [Call_IOConnectCallStructMethod 9 2 (key_info_request 0x54423054) 80 80]\<rparr>
     = ((kIOReturnNotFound, payload_reply, 80),
        \<lparr>world = serving [],
         calls = [Call_IOConnectCallStructMethod 9 2 (key_info_request 0x54423054) 80 80,
                  Call_IOConnectCallStructMethod 9 2 (read_bytes_request 0x54423054 4) 80 80]\<rparr>) \<and>
   kIOReturnNotFound \<noteq> kIOReturnSuccess \<and>
   map_option (\<lambda>r. (fst (fst r), SMCVal_t.bytes (snd (fst r))))
     (SMCReadKey scripted_host 9 ''TB0T'' stale_val
        (boot (serving [(kIOReturnSuccess, flt_info_reply), (kIOReturnNotFound, payload_reply)])))
     = Some (kIOReturnNotFound, replicate 32 0)"
proof -
  have h1: "SMCKeyToUInt32 ''TB0T'' = Some 0x54423054"
    by (simp add: uint32_of_char_def)
  have h2: "SMCGetKeyInfo scripted_host 9 0x54423054 zero_SMCKeyData_keyInfo_t
     (boot (serving [(kIOReturnSuccess, flt_info_reply), (kIOReturnNotFound, payload_reply)]))
     = ((kIOReturnSuccess, flt_info),
        \<lparr>world = serving [(kIOReturnNotFound, payload_reply)],
         calls = [Call_IOConnectCallStructMethod 9 2 (key_info_request 0x54423054) 80 80]\<rparr>)"
    by (simp add: SMCGetKeyInfo_unfold callStructMethod_def invoke_def scripted_host_def
        boot_def serving_def sizeof_SMCKeyData_t_def flt_info_reply_def flt_info_def
        zero_SMCKeyData_keyInfo_t_def)
  have h3: "callStructMethod scripted_host 9 2
     (read_bytes_request 0x54423054 (SMCKeyData_keyInfo_t.dataSize flt_info))
     sizeof_SMCKeyData_t zero_SMCKeyData_t sizeof_SMCKeyData_t
     \<lparr>world = serving [(kIOReturnNotFound, payload_reply)],
      calls = [Call_IOConnectCallStructMethod 9 2 (key_info_request 0x54423054) 80 80]\<rparr>
     = ((kIOReturnNotFound, payload_reply, 80),
        \<lparr>world = serving [],
         calls = [Call_IOConnectCallStructMethod 9 2 (key_info_request 0x54423054) 80 80,
                  Call_IOConnectCallStructMethod 9 2 (read_bytes_request 0x54423054 4) 80 80]\<rparr>)"
    by (simp add: callStructMethod_def invoke_def scripted_host_def serving_def
        sizeof_SMCKeyData_t_def flt_info_def)
  have h4: "kIOReturnNotFound \<noteq> kIOReturnSuccess"
    by (simp add: kIOReturnNotFound_def kIOReturnSuccess_def)
  from SMCReadKey_read_failure_bytes_zero [OF h1 h2 h3 h4, of stale_val]
  have "map_option (\<lambda>r. (fst (fst r), SMCVal_t.bytes (snd (fst r))))
     (SMCReadKey scripted_host 9 ''TB0T'' stale_val
        (boot (serving [(kIOReturnSuccess, flt_info_reply), (kIOReturnNotFound, payload_reply)])))
     = Some (kIOReturnNotFound, replicate 32 0)"
    by (auto simp add: SMC_KEY_DATA_SIZE_def)
  with h1 h2 h3 h4 show ?thesis by (intro conjI)
qed

subsection \<open>Success\<close>

text \<open>
  C6. Where both service calls succeed, the byte buffer of the output record is the
  whole 32-byte buffer of the value-read response, not only its first \<open>dataSize\<close>
  bytes, and the outcome does not depend on what the output record held before.
\<close>

theorem SMCReadKey_success_copies_buffer:
  assumes "SMCKeyToUInt32 kstr = Some keyUInt"
    and "SMCGetKeyInfo h conn keyUInt zero_SMCKeyData_keyInfo_t s
           = ((kIOReturnSuccess, kinfo), s1)"
    and "callStructMethod h conn 2
           (read_bytes_request keyUInt (SMCKeyData_keyInfo_t.dataSize kinfo))
           sizeof_SMCKeyData_t zero_SMCKeyData_t sizeof_SMCKeyData_t s1
           = ((kIOReturnSuccess, out, osz), s2)"
    and "length (SMCKeyData_t.bytes out) = SMC_KEY_DATA_SIZE"
  shows "(\<exists>v'. SMCReadKey h conn kstr v s = Some ((kIOReturnSuccess, v'), s2) \<and>
      SMCVal_t.bytes v' = SMCKeyData_t.bytes out \<and>
      length (SMCVal_t.bytes v') = 32) \<and>
    (\<forall>v0. SMCReadKey h conn kstr v0 s = SMCReadKey h conn kstr v s)"
proof (intro conjI allI)
  from assms(1) obtain copied where c: "strncpy_bytes kstr 4 = Some copied"
    by (rule SMCKeyToUInt32_copied)
  have "length (SMCKeyData_t.bytes out) = 32"
    using assms(4) by (simp add: SMC_KEY_DATA_SIZE_def)
  then show "\<exists>v'. SMCReadKey h conn kstr v s = Some ((kIOReturnSuccess, v'), s2) \<and>
      SMCVal_t.bytes v' = SMCKeyData_t.bytes out \<and>
      length (SMCVal_t.bytes v') = 32"
    by (simp add: SMCReadKey_unfold [OF assms(1) c] assms(2,3,4))
next
  fix v0
  show "SMCReadKey h conn kstr v0 s = SMCReadKey h conn kstr v s"
    by (rule SMCReadKey_ignores_val)
qed

theorem SMCReadKey_success_copies_buffer_witness:
  "SMCKeyToUInt32 (''TC0P'' @ [NUL]) = Some 0x54433050 \<and>
   SMCGetKeyInfo scripted_host 7 0x54433050 zero_SMCKeyData_keyInfo_t
     (boot (serving [(kIOReturnSuccess, flt_info_reply), (kIOReturnSuccess, payload_reply)]))
     = ((kIOReturnSuccess, flt_info),
        \<lparr>world = serving [(kIOReturnSuccess, payload_reply)],
         calls = [Call_IOConnectCallStructMethod 7 2 (key_info_request 0x54433050) 80 80]\<rparr>) \<and>
   callStructMethod scripted_host 7 2
     (read_bytes_request 0x54433050 (SMCKeyData_keyInfo_t.dataSize flt_info))
     sizeof_SMCKeyData_t zero_SMCKeyData_t sizeof_SMCKeyData_t
     \<lparr>world = serving [(kIOReturnSuccess, payload_reply)],
      calls = [Call_IOConnectCallStructMethod 7 2 (key_info_request 0x54433050) 80 80]\<rparr>
     = ((kIOReturnSuccess, payload_reply, 80),
        \<lparr>world = serving [],
         calls = [Call_IOConnectCallStructMethod 7 2 (key_info_request 0x54433050) 80 80,
                  Call_IOConnectCallStructMethod 7 2 (read_bytes_request 0x54433050 4) 80 80]\<rparr>) \<and>
   length (SMCKeyData_t.bytes payload_reply) = SMC_KEY_DATA_SIZE \<and>
   map_option (\<lambda>r. (fst (fst r), SMCVal_t.bytes (snd (fst r))))
     (SMCReadKey scripted_host 7 (''TC0P'' @ [NUL]) stale_val
        (boot (serving [(kIOReturnSuccess, flt_info_reply), (kIOReturnSuccess, payload_reply)])))
     = Some (kIOReturnSuccess, [0x42, 0x28, 0x00, 0x00, 0xAA, 0xBB] @ replicate 26 0xEE)"
proof -
  have h1: "SMCKeyToUInt32 (''TC0P'' @ [NUL]) = Some 0x54433050"
    by (simp add: uint32_of_char_def)
  have h2: "SMCGetKeyInfo scripted_host 7 0x54433050 zero_SMCKeyData_keyInfo_t
     (boot (serving [(kIOReturnSuccess, flt_info_reply), (kIOReturnSuccess, payload_reply)]))
     = ((kIOReturnSuccess, flt_info),
        \<lparr>world = serving [(kIOReturnSuccess, payload_reply)],
         calls = [Call_IOConnectCallStructMethod 7 2 (key_info_request 0x54433050) 80 80]\<rparr>)"
    by (simp add: SMCGetKeyInfo_unfold callStructMethod_def invoke_def scripted_host_def
        boot_def serving_def sizeof_SMCKeyData_t_def flt_info_reply_def flt_info_def
        zero_SMCKeyData_keyInfo_t_def)
  have h3: "callStructMethod scripted_host 7 2
     (read_bytes_request 0x54433050 (SMCKeyData_keyInfo_t.dataSize flt_info))
     sizeof_SMCKeyData_t zero_SMCKeyData_t sizeof_SMCKeyData_t
     \<lparr>world = serving [(kIOReturnSuccess, payload_reply)],
      calls = [Call_IOConnectCallStructMethod 7 2 (key_info_request 0x54433050) 80 80]\<rparr>
     = ((kIOReturnSuccess, payload_reply, 80),
        \<lparr>world = serving [],
         calls = [Call_IOConnectCallStructMethod 7 2 (key_info_request 0x54433050) 80 80,
                  Call_IOConnectCallStructMethod 7 2 (read_bytes_request 0x54433050 4) 80 80]\<rparr>)"
    by (simp add: callStructMethod_def invoke_def scripted_host_def serving_def
        sizeof_SMCKeyData_t_def flt_info_def)
  have h4: "length (SMCKeyData_t.bytes payload_reply) = SMC_KEY_DATA_SIZE"
    by (simp add: payload_reply_def SMC_KEY_DATA_SIZE_def)
  have b: "SMCKeyData_t.bytes payload_reply = [0x42, 0x28, 0x00, 0x00, 0xAA, 0xBB] @ replicate 26 0xEE"
    by (simp add: payload_reply_def)
  from SMCReadKey_success_copies_buffer [OF h1 h2 h3 h4, of stale_val]
  have "map_option (\<lambda>r. (fst (fst r), SMCVal_t.bytes (snd (fst r))))
     (SMCReadKey scripted_host 7 (''TC0P'' @ [NUL]) stale_val
        (boot (serving [(kIOReturnSuccess, flt_info_reply), (kIOReturnSuccess, payload_reply)])))
     = Some (kIOReturnSuccess, [0x42, 0x28, 0x00, 0x00, 0xAA, 0xBB] @ replicate 26 0xEE)"
    by (auto simp add: b)
  with h1 h2 h3 h4 show ?thesis by (intro conjI)
qed

subsection \<open>Keys longer than four characters\<close>

text \<open>
  C5. For every key string of length greater than 4, \<open>SMCReadKey\<close> returns, its
  output record holds in the key field the first four characters of the string
  followed by the terminator at offset 4, and every service call it makes (the
  metadata query and, after it, the value read) carries the encoding of those four
  bytes; the whole outcome is that of reading the four-byte prefix.
\<close>

theorem SMCReadKey_long_key:
  assumes "strlen kstr = Some n" and "4 < n"
  shows "\<exists>keyUInt res v' s' cs.
    SMCKeyToUInt32 (take 4 kstr) = Some keyUInt \<and>
    SMCReadKey h conn kstr v s = Some ((res, v'), s') \<and>
    SMCReadKey h conn (take 4 kstr) v s = Some ((res, v'), s') \<and>
    SMCVal_t.key v' = take 4 kstr @ [NUL] \<and>
    calls s' = calls s @ cs \<and> cs \<noteq> [] \<and>
    list_all (\<lambda>c. call_key c = Some keyUInt) cs"
proof -
  from assms have c: "strncpy_bytes kstr 4 = Some (take 4 kstr)" and len: "4 \<le> length kstr"
    using strlen_strncpy_bytes [of kstr n 4] by simp_all
  from len obtain keyUInt where k: "SMCKeyToUInt32 kstr = Some keyUInt"
    using SMCKeyToUInt32_defined by blast
  from SMCReadKey_calls [OF k, of h conn v s]
  obtain res v' s' cs where r: "SMCReadKey h conn kstr v s = Some ((res, v'), s')"
    and t: "calls s' = calls s @ cs" "cs \<noteq> []"
      "list_all (\<lambda>c. call_key c = Some keyUInt) cs"
    by blast
  have "SMCVal_t.key v' = take 4 kstr @ [NUL]"
    using r by (auto simp add: SMCReadKey_unfold [OF k c] split: prod.splits if_splits)
  with k r t show ?thesis
    by (simp add: SMCKeyToUInt32_take SMCReadKey_take)
qed

theorem SMCReadKey_long_key_witness:
  "strlen (''TC0Pxyz'' @ [NUL]) = Some 7 \<and> (4 :: nat) < 7 \<and>
   SMCKeyToUInt32 (take 4 (''TC0Pxyz'' @ [NUL])) = Some 0x54433050 \<and>
   map_option (\<lambda>r. SMCVal_t.key (snd (fst r)))
     (SMCReadKey scripted_host 7 (''TC0Pxyz'' @ [NUL]) stale_val (boot (serving [])))
     = Some (''TC0P'' @ [NUL])"
proof -
  have h1: "strlen (''TC0Pxyz'' @ [NUL]) = Some 7"
    by (simp add: NUL_def)
  have h2: "(4 :: nat) < 7" by simp
  have k: "SMCKeyToUInt32 (take 4 (''TC0Pxyz'' @ [NUL])) = Some 0x54433050"
    by (simp add: uint32_of_char_def)
  from SMCReadKey_long_key [OF h1 h2, of scripted_host 7 stale_val "boot (serving [])"]
  have "map_option (\<lambda>r. SMCVal_t.key (snd (fst r)))
     (SMCReadKey scripted_host 7 (''TC0Pxyz'' @ [NUL]) stale_val (boot (serving [])))
     = Some (''TC0P'' @ [NUL])"
    by auto
  with h1 h2 k show ?thesis by (intro conjI)
qed

end
